theory Spec2Isabelle
  imports Complex_Main
begin

section \<open>Numbers of the array backend\<close>

text \<open>
  The source computes on numpy arrays of IEEE floating-point numbers. The embedding keeps
  the special values of that arithmetic and computes exactly on the finite ones: a number
  is a finite real, an infinity with its sign (\<open>Infty True\<close> is \<open>+inf\<close>) or \<open>NaN\<close>.
  Rounding and overflow of finite results are not part of the model, and zero carries no
  sign (it divides like \<open>+0.0\<close>). What the model does keep is what numpy does where the
  mathematics is undefined: \<open>0/0\<close> is \<open>NaN\<close>, \<open>x/0\<close> is an infinity, the square root
  of a negative number is \<open>NaN\<close>, and every later operation propagates these values.
\<close>

datatype fl = Fin real | Infty bool | NaN

fun fneg :: "fl \<Rightarrow> fl" where
  "fneg (Fin a) = Fin (- a)"
| "fneg (Infty s) = Infty (\<not> s)"
| "fneg NaN = NaN"

fun fadd :: "fl \<Rightarrow> fl \<Rightarrow> fl" where
  "fadd (Fin a) (Fin b) = Fin (a + b)"
| "fadd (Fin a) (Infty s) = Infty s"
| "fadd (Infty s) (Fin b) = Infty s"
| "fadd (Infty s) (Infty t) = (if s = t then Infty s else NaN)"
| "fadd NaN _ = NaN"
| "fadd _ NaN = NaN"

definition fsub :: "fl \<Rightarrow> fl \<Rightarrow> fl" where
  "fsub x y = fadd x (fneg y)"

fun fmul :: "fl \<Rightarrow> fl \<Rightarrow> fl" where
  "fmul (Fin a) (Fin b) = Fin (a * b)"
| "fmul (Fin a) (Infty s) = (if a = 0 then NaN else Infty (s = (0 < a)))"
| "fmul (Infty s) (Fin b) = (if b = 0 then NaN else Infty (s = (0 < b)))"
| "fmul (Infty s) (Infty t) = Infty (s = t)"
| "fmul NaN _ = NaN"
| "fmul _ NaN = NaN"

fun fdiv :: "fl \<Rightarrow> fl \<Rightarrow> fl" where
  "fdiv (Fin a) (Fin b) =
     (if b \<noteq> 0 then Fin (a / b) else if a = 0 then NaN else Infty (0 < a))"
| "fdiv (Fin a) (Infty s) = Fin 0"
| "fdiv (Infty s) (Fin b) = Infty (s = (0 \<le> b))"
| "fdiv (Infty s) (Infty t) = NaN"
| "fdiv NaN _ = NaN"
| "fdiv _ NaN = NaN"

primrec fpow :: "fl \<Rightarrow> nat \<Rightarrow> fl" where
  "fpow x 0 = Fin 1"
| "fpow x (Suc k) = fmul x (fpow x k)"

fun fabs :: "fl \<Rightarrow> fl" where
  "fabs (Fin a) = Fin \<bar>a\<bar>"
| "fabs (Infty s) = Infty True"
| "fabs NaN = NaN"

fun fsqrt :: "fl \<Rightarrow> fl" where
  "fsqrt (Fin a) = (if a < 0 then NaN else Fin (sqrt a))"
| "fsqrt (Infty s) = (if s then Infty True else NaN)"
| "fsqrt NaN = NaN"

fun fcos :: "fl \<Rightarrow> fl" where
  "fcos (Fin a) = Fin (cos a)"
| "fcos _ = NaN"

fun fsin :: "fl \<Rightarrow> fl" where
  "fsin (Fin a) = Fin (sin a)"
| "fsin _ = NaN"

text \<open>
  The tangent has poles where the cosine vanishes. No floating-point number is such a
  point, and near one numpy returns a huge finite value; in exact arithmetic the pole
  itself is an infinity, so that \<open>x / tan (pi/2)\<close> is \<open>0\<close> as it is (up to rounding) in
  the source.
\<close>

fun ftan :: "fl \<Rightarrow> fl" where
  "ftan (Fin a) = (if cos a = 0 then Infty True else Fin (tan a))"
| "ftan _ = NaN"

fun farccos :: "fl \<Rightarrow> fl" where
  "farccos (Fin a) = (if - 1 \<le> a \<and> a \<le> 1 then Fin (arccos a) else NaN)"
| "farccos _ = NaN"



text \<open>\<open>less_equal\<close>: every comparison with \<open>NaN\<close> is false.\<close>

fun less_equal :: "fl \<Rightarrow> fl \<Rightarrow> bool" where
  "less_equal (Fin a) (Fin b) = (a \<le> b)"
| "less_equal (Fin a) (Infty s) = s"
| "less_equal (Infty s) (Fin b) = (\<not> s)"
| "less_equal (Infty s) (Infty t) = (if s then t else True)"
| "less_equal NaN _ = False"
| "less_equal _ NaN = False"

text \<open>\<open>clip x lo hi\<close> is \<open>minimum (maximum x lo) hi\<close>; \<open>NaN\<close> stays \<open>NaN\<close>.\<close>

fun clip :: "fl \<Rightarrow> real \<Rightarrow> real \<Rightarrow> fl" where
  "clip (Fin a) lo hi = Fin (min (max a lo) hi)"
| "clip (Infty s) lo hi = (if s then Fin hi else Fin lo)"
| "clip NaN lo hi = NaN"

text \<open>
  \<open>isclose a b\<close> with numpy's default tolerances is \<open>|a - b| \<le> atol + rtol * |b|\<close> with
  \<open>rtol = 1e-5\<close> and \<open>atol = 1e-8\<close>; the source only compares with \<open>0.0\<close>. An infinity
  or \<open>NaN\<close> is not close to a finite number.
\<close>

definition isclose_rtol :: real where "isclose_rtol = 1 / 10 ^ 5"
definition isclose_atol :: real where "isclose_atol = 1 / 10 ^ 8"

fun isclose :: "fl \<Rightarrow> real \<Rightarrow> bool" where
  "isclose (Fin a) b = (\<bar>a - b\<bar> \<le> isclose_atol + isclose_rtol * \<bar>b\<bar>)"
| "isclose _ b = False"

text \<open>\<open>cast mask float32\<close>: \<open>True\<close> is \<open>1.0\<close>, \<open>False\<close> is \<open>0.0\<close>.\<close>

definition cast_float :: "bool \<Rightarrow> fl" where
  "cast_float b = (if b then Fin 1 else Fin 0)"

definition fsum :: "fl list \<Rightarrow> fl" where
  "fsum xs = foldr fadd xs (Fin 0)"

section \<open>Arrays\<close>

text \<open>
  Modelled from the spec: the array backend (module \<open>geomstats.backend\<close>) is not part of
  the sources at hand; its functions are numpy's under the same names. The spec (3, 6)
  gives the arrays of the interface: a single point (an array of rank 1) or a batch of
  points (rank 2, one row per point, all rows of one length), a single point being
  promoted to a batch of one row before anything is computed (\<open>to_ndarray x 2\<close>). A
  column of shape \<open>(batch, 1)\<close>, as the ambient metric returns it, is the list of its
  entries. A batch is the list of its rows, so the row length of a batch without rows is
  not kept; the statements below are about batches with at least one row wherever the row
  length matters.
\<close>

type_synonym row = "fl list"
type_synonym batch = "fl list list"
type_synonym column = "fl list"

datatype ndarray = Arr1 row | Arr2 batch

fun to_ndarray2 :: "ndarray \<Rightarrow> batch" where
  "to_ndarray2 (Arr1 v) = [v]"
| "to_ndarray2 (Arr2 m) = m"

text \<open>\<open>point.shape[-1]\<close>\<close>

fun shape_last :: "ndarray \<Rightarrow> nat" where
  "shape_last (Arr1 v) = length v"
| "shape_last (Arr2 []) = 0"
| "shape_last (Arr2 (r # m)) = length r"

datatype py_error = AssertionError | NotImplementedError | ZeroDivisionError

section \<open>The ambient Euclidean metric\<close>

text \<open>
  Modelled from the spec: \<open>EuclideanMetric\<close> (module \<open>geomstats.euclidean_space\<close>) is not
  part of the sources at hand. The spec (4.1) gives it as the standard Euclidean bilinear
  form, batched over the leading axis: \<open>inner_product\<close>, \<open>squared_norm\<close> and \<open>norm\<close>
  each return one number for every row. Two batches are combined row by row; they are
  taken to have the same number of rows, and their rows the same length.
\<close>

definition inner_row :: "row \<Rightarrow> row \<Rightarrow> fl" where
  "inner_row a b = fsum (map2 fmul a b)"

definition inner_product :: "ndarray \<Rightarrow> ndarray \<Rightarrow> column" where
  "inner_product a b = map2 inner_row (to_ndarray2 a) (to_ndarray2 b)"

definition embedding_squared_norm :: "ndarray \<Rightarrow> column" where
  "embedding_squared_norm v = inner_product v v"

definition embedding_norm :: "ndarray \<Rightarrow> column" where
  "embedding_norm v = map fsqrt (embedding_squared_norm v)"

text \<open>\<open>einsum 'ni,nj->nj' coef x\<close> with \<open>coef\<close> a column: row \<open>n\<close> of \<open>x\<close> times \<open>coef[n]\<close>.\<close>

definition einsum_scale :: "column \<Rightarrow> batch \<Rightarrow> batch" where
  "einsum_scale coef x = map2 (\<lambda>c r. map (fmul c) r) coef x"

definition batch_add :: "batch \<Rightarrow> batch \<Rightarrow> batch" where
  "batch_add x y = map2 (map2 fadd) x y"

definition batch_sub :: "batch \<Rightarrow> batch \<Rightarrow> batch" where
  "batch_sub x y = map2 (map2 fsub) x y"

section \<open>Constants of the module\<close>

definition TOLERANCE :: real where "TOLERANCE = 1 / 10 ^ 6"
definition EPSILON :: real where "EPSILON = 1 / 10 ^ 8"

definition COS_TAYLOR_COEFFS :: "real list" where
  "COS_TAYLOR_COEFFS =
     [1, 0, - 1 / fact 2, 0, 1 / fact 4, 0, - 1 / fact 6, 0, 1 / fact 8, 0]"

definition INV_SIN_TAYLOR_COEFFS :: "real list" where
  "INV_SIN_TAYLOR_COEFFS = [0, 1 / 6, 0, 7 / 360, 0, 31 / 15120, 0, 127 / 604800]"

definition INV_TAN_TAYLOR_COEFFS :: "real list" where
  "INV_TAN_TAYLOR_COEFFS = [0, - 1 / 3, 0, - 1 / 45, 0, - 2 / 945, 0, - 1 / 4725]"

section \<open>Hypersphere\<close>

record hypersphere =
  dimension :: nat

text \<open>The constructor asserts that the dimension is a positive integer.\<close>

definition Hypersphere :: "int \<Rightarrow> py_error + hypersphere" where
  "Hypersphere d = (if d > 0 then Inr \<lparr>dimension = nat d\<rparr> else Inl AssertionError)"

text \<open>
  \<open>belongs\<close> returns the Python value \<open>False\<close> on a dimension mismatch and otherwise an
  array with one truth value for every row. On the way it may log a warning; the function
  returns the warnings it logged with its result.

  The test \<open>point_dim is self.dimension\<close> compares the identity of two integer objects,
  not their values. In CPython the integers from \<open>-5\<close> to \<open>256\<close> are shared objects; a
  larger integer read from a shape tuple is an object of its own, never identical to the
  one stored in the sphere.
\<close>

datatype bools = PyFalse | BoolArray "bool list"

definition py_is :: "nat \<Rightarrow> nat \<Rightarrow> bool" where
  "py_is a b = (a = b \<and> a \<le> 256)"

definition intrinsic_warning :: string where
  "intrinsic_warning =
     ''Use the extrinsic coordinates to represent points on the hypersphere.''"

definition belongs :: "hypersphere \<Rightarrow> ndarray \<Rightarrow> real \<Rightarrow> bools \<times> string list" where
  "belongs self point tolerance =
     (let point_dim = shape_last point in
      if point_dim \<noteq> dimension self + 1 then
        (if py_is point_dim (dimension self) then (PyFalse, [intrinsic_warning])
         else (PyFalse, []))
      else
        (let sq_norm = embedding_squared_norm point;
             diff = map (\<lambda>s. fabs (fsub s (Fin 1))) sq_norm
         in (BoolArray (map (\<lambda>d. less_equal d (Fin tolerance)) diff), [])))"

fun gs_all :: "bools \<Rightarrow> bool" where
  "gs_all PyFalse = False"
| "gs_all (BoolArray bs) = list_all (\<lambda>b. b) bs"

text \<open>\<open>point / norm\<close> divides every row by its own norm.\<close>

definition projection :: "ndarray \<Rightarrow> batch" where
  "projection point =
     (let point2 = to_ndarray2 point;
          norm = embedding_norm (Arr2 point2)
      in map2 (\<lambda>r c. map (\<lambda>x. fdiv x c) r) point2 norm)"

definition regularize :: "hypersphere \<Rightarrow> ndarray \<Rightarrow> (py_error + batch) \<times> string list" where
  "regularize self point =
     (let (b, warnings) = belongs self point TOLERANCE in
      if gs_all b then (Inr (projection point), warnings)
      else (Inl AssertionError, warnings))"

text \<open>\<open>linalg.norm x axis=-1\<close> is the square root of the sum of the squares of a row.\<close>

definition linalg_norm :: "row \<Rightarrow> fl" where
  "linalg_norm r = fsqrt (fsum (map (\<lambda>x. fmul x x) r))"

definition intrinsic_to_extrinsic_coords :: "ndarray \<Rightarrow> batch" where
  "intrinsic_to_extrinsic_coords point_intrinsic =
     (let p = to_ndarray2 point_intrinsic;
          coord_0 = map (\<lambda>r. fsqrt (fsub (Fin 1) (fpow (linalg_norm r) 2))) p
      in map2 (\<lambda>c r. c # r) coord_0 p)"

text \<open>\<open>point_extrinsic[:, 1:]\<close>\<close>

definition extrinsic_to_intrinsic_coords :: "ndarray \<Rightarrow> batch" where
  "extrinsic_to_intrinsic_coords point_extrinsic =
     map (drop 1) (to_ndarray2 point_extrinsic)"






section \<open>HypersphereMetric\<close>

text \<open>
  The metric object holds the dimension, its signature and the ambient metric; none of
  the methods below reads the first two, and the ambient metric is the one of the previous
  section, so the methods are functions of their array arguments alone.
\<close>

definition squared_norm :: "ndarray \<Rightarrow> ndarray option \<Rightarrow> column" where
  "squared_norm vector base_point = embedding_squared_norm vector"

definition exp_metric :: "ndarray \<Rightarrow> ndarray \<Rightarrow> batch" where
  "exp_metric tangent_vec base_point =
     (let tv = to_ndarray2 tangent_vec;
          bp = to_ndarray2 base_point;
          norm_tangent_vec = map (\<lambda>x. fadd x (Fin EPSILON)) (embedding_norm (Arr2 tv));
          coef_1 = map fcos norm_tangent_vec;
          coef_2 = map2 fdiv (map fsin norm_tangent_vec) norm_tangent_vec
      in batch_add (einsum_scale coef_1 bp) (einsum_scale coef_2 tv))"

text \<open>
  The truncated series \<open>1. + c[1] * angle ** 2 + c[3] * angle ** 4 + c[5] * angle ** 6
  + c[7] * angle ** 8\<close>, summed from the left as Python does.
\<close>

definition taylor_even :: "real list \<Rightarrow> fl \<Rightarrow> fl" where
  "taylor_even c a =
     fadd (fadd (fadd (fadd (Fin 1) (fmul (Fin (c ! 1)) (fpow a 2)))
                      (fmul (Fin (c ! 3)) (fpow a 4)))
                (fmul (Fin (c ! 5)) (fpow a 6)))
          (fmul (Fin (c ! 7)) (fpow a 8))"

text \<open>
  The coefficient columns of \<open>log\<close>, as the source builds them: a column of zeros, to
  which the masked series and then the masked closed form are added.
  (\<open>mask_else_float * angle / sin angle\<close> multiplies first and divides second.)
  The source also gathers the angles of each mask (\<open>angle_0\<close>, \<open>angle_else\<close>) and counts
  them, never reads the result, and prints the shape of \<open>coef_1\<close>; none of this reaches
  the value returned.
\<close>

definition mask_0 :: "column \<Rightarrow> bool list" where
  "mask_0 angle = map (\<lambda>a. isclose a 0) angle"

definition mask_else :: "column \<Rightarrow> bool list" where
  "mask_else angle = map (\<lambda>b. b = False) (mask_0 angle)"

definition coef_taylor :: "real list \<Rightarrow> column \<Rightarrow> column" where
  "coef_taylor c angle =
     map2 fmul (map cast_float (mask_0 angle)) (map (taylor_even c) angle)"

definition coef_else_1 :: "column \<Rightarrow> column" where
  "coef_else_1 angle =
     map2 fdiv (map2 fmul (map cast_float (mask_else angle)) angle) (map fsin angle)"

definition coef_else_2 :: "column \<Rightarrow> column" where
  "coef_else_2 angle =
     map2 fdiv (map2 fmul (map cast_float (mask_else angle)) angle) (map ftan angle)"

definition zeros_like :: "column \<Rightarrow> column" where
  "zeros_like angle = map (\<lambda>_. Fin 0) angle"

definition log_coef_1 :: "column \<Rightarrow> column" where
  "log_coef_1 angle =
     map2 fadd (map2 fadd (zeros_like angle) (coef_taylor INV_SIN_TAYLOR_COEFFS angle))
               (coef_else_1 angle)"

definition log_coef_2 :: "column \<Rightarrow> column" where
  "log_coef_2 angle =
     map2 fadd (map2 fadd (zeros_like angle) (coef_taylor INV_TAN_TAYLOR_COEFFS angle))
               (coef_else_2 angle)"

definition log_angle :: "batch \<Rightarrow> batch \<Rightarrow> column" where
  "log_angle point base_point =
     (let norm_base_point = embedding_norm (Arr2 base_point);
          norm_point = embedding_norm (Arr2 point);
          inner_prod = inner_product (Arr2 base_point) (Arr2 point);
          cos_angle = map2 fdiv inner_prod (map2 fmul norm_base_point norm_point);
          cos_angle = map (\<lambda>c. clip c (- 1) 1) cos_angle
      in map farccos cos_angle)"

definition log_metric :: "ndarray \<Rightarrow> ndarray \<Rightarrow> batch" where
  "log_metric point base_point =
     (let p = to_ndarray2 point;
          bp = to_ndarray2 base_point;
          angle = log_angle p bp
      in batch_sub (einsum_scale (log_coef_1 angle) p)
                   (einsum_scale (log_coef_2 angle) bp))"

definition dist_metric :: "ndarray \<Rightarrow> ndarray \<Rightarrow> column" where
  "dist_metric point_a point_b =
     (let norm_a = embedding_norm point_a;
          norm_b = embedding_norm point_b;
          inner_prod = inner_product point_a point_b;
          cos_angle = map2 fdiv inner_prod (map2 fmul norm_a norm_b);
          cos_angle = map (\<lambda>c. clip c (- 1) 1) cos_angle
      in map farccos cos_angle)"

section \<open>Closed forms over the reals\<close>

text \<open>
  The statements below compare the functions above, run on finite numbers, with closed
  forms over the reals. \<open>sq_sum v\<close> is the squared Euclidean norm of \<open>v\<close>.
\<close>

definition sq_sum :: "real list \<Rightarrow> real" where
  "sq_sum v = (\<Sum>x\<leftarrow>v. x * x)"

definition finite_row :: "real list \<Rightarrow> row" where
  "finite_row v = map Fin v"

definition finite_batch :: "real list list \<Rightarrow> ndarray" where
  "finite_batch rows = Arr2 (map finite_row rows)"

text \<open>
  The point \<open>cos (|v| + e1) * p + (sin (|v| + e1) / (|v| + e2)) * v\<close>: with \<open>e1 = 0\<close> and
  \<open>e2 = EPSILON\<close> this is the formula in which the epsilon guards the division only; with
  \<open>e1 = e2 = 0\<close> it is the exponential map itself.
\<close>

definition exp_formula :: "real \<Rightarrow> real \<Rightarrow> real list \<Rightarrow> real list \<Rightarrow> row" where
  "exp_formula e1 e2 v p =
     map2 (\<lambda>pj vj. Fin (cos (sqrt (sq_sum v) + e1) * pj
                          + sin (sqrt (sq_sum v) + e1) / (sqrt (sq_sum v) + e2) * vj)) p v"

text \<open>A point is on the sphere of dimension \<open>n\<close> up to the tolerance.\<close>

definition on_sphere :: "nat \<Rightarrow> real \<Rightarrow> real list \<Rightarrow> bool" where
  "on_sphere n tol v = (length v = n + 1 \<and> \<bar>sq_sum v - 1\<bar> \<le> tol)"




section \<open>Arithmetic on finite numbers\<close>

lemma fsum_Fin: "fsum (map Fin xs) = Fin (sum_list xs)"
  by (induction xs) (simp_all add: fsum_def)

lemma fpow_Fin: "fpow (Fin a) k = Fin (a ^ k)"
  by (induction k) simp_all

lemma inner_row_Fin:
  "inner_row (map Fin a) (map Fin b) = Fin (\<Sum>(x, y)\<leftarrow>zip a b. x * y)"
proof (induction a arbitrary: b)
  case Nil
  show ?case by (simp add: inner_row_def fsum_def)
next
  case (Cons x a)
  show ?case
  proof (cases b)
    case Nil
    then show ?thesis by (simp add: inner_row_def fsum_def)
  next
    case (Cons y b')
    with Cons.IH [of b'] show ?thesis by (simp add: inner_row_def fsum_def)
  qed
qed

lemma finite_row_simps [simp]:
  "finite_row [] = []"
  "finite_row (x # xs) = Fin x # finite_row xs"
  "length (finite_row v) = length v"
  by (simp_all add: finite_row_def)

lemma finite_batch_simps [simp]:
  "to_ndarray2 (finite_batch rows) = map finite_row rows"
  "shape_last (finite_batch (r # rows)) = length r"
  by (simp_all add: finite_batch_def)

lemma inner_row_same [simp]: "inner_row (finite_row a) (finite_row a) = Fin (sq_sum a)"
  by (simp add: finite_row_def inner_row_Fin zip_same_conv_map comp_def sq_sum_def)

lemma sq_sum_simps [simp]:
  "sq_sum [] = 0"
  "sq_sum (x # xs) = x * x + sq_sum xs"
  by (simp_all add: sq_sum_def)

lemma sq_sum_nonneg: "0 \<le> sq_sum v"
  by (induction v) simp_all

lemma sq_sum_not_neg [simp]: "\<not> sq_sum v < 0"
  using sq_sum_nonneg [of v] by simp

lemmas concrete_defs =
  embedding_norm_def embedding_squared_norm_def inner_product_def inner_row_def fsum_def
  einsum_scale_def batch_sub_def batch_add_def fsub_def cast_float_def Let_def fpow_Fin
  isclose_atol_def isclose_rtol_def

lemmas log_defs =
  log_metric_def log_angle_def log_coef_1_def log_coef_2_def zeros_like_def
  coef_taylor_def coef_else_1_def coef_else_2_def mask_0_def mask_else_def taylor_even_def
  INV_SIN_TAYLOR_COEFFS_def INV_TAN_TAYLOR_COEFFS_def

section \<open>The metric\<close>

text \<open>
  C10. \<open>squared_norm\<close> of the metric is the squared norm of the ambient space: it does
  not depend on the base point (whatever it is, \<open>None\<close> included), and on a batch of
  finite vectors it is the sum of the squares of each row.
\<close>

theorem squared_norm_ignores_base_point:
  "squared_norm v b1 = squared_norm v b2 \<and>
   squared_norm v None = embedding_squared_norm v \<and>
   squared_norm (finite_batch rows) b1 = map (\<lambda>r. Fin (sq_sum r)) rows"
  by (simp add: squared_norm_def embedding_squared_norm_def inner_product_def
      zip_same_conv_map comp_def)

text \<open>
  C4. On the 2-sphere, for the base point \<open>(1,0,0)\<close> and the point \<open>(0,1,0)\<close>, the
  distance is \<open>pi/2\<close> and the logarithm is \<open>(0, pi/2, 0)\<close>. The distance of any two
  arrays is the arc cosine of the clipped, normalised inner product and nothing else: no
  series enters it.
\<close>

theorem dist_and_log_of_orthogonal_points:
  "dist_metric (Arr1 [Fin 0, Fin 1, Fin 0]) (Arr1 [Fin 1, Fin 0, Fin 0]) = [Fin (pi / 2)] \<and>
   log_metric (Arr1 [Fin 0, Fin 1, Fin 0]) (Arr1 [Fin 1, Fin 0, Fin 0])
     = [[Fin 0, Fin (pi / 2), Fin 0]] \<and>
   dist_metric a b =
     map farccos (map (\<lambda>c. clip c (- 1) 1)
       (map2 fdiv (inner_product a b) (map2 fmul (embedding_norm a) (embedding_norm b))))"
proof (intro conjI)
  show "dist_metric (Arr1 [Fin 0, Fin 1, Fin 0]) (Arr1 [Fin 1, Fin 0, Fin 0]) = [Fin (pi / 2)]"
    by (simp add: dist_metric_def concrete_defs)
  show "log_metric (Arr1 [Fin 0, Fin 1, Fin 0]) (Arr1 [Fin 1, Fin 0, Fin 0])
          = [[Fin 0, Fin (pi / 2), Fin 0]]"
    using pi_ge_two by (simp add: log_defs concrete_defs)
  show "dist_metric a b =
     map farccos (map (\<lambda>c. clip c (- 1) 1)
       (map2 fdiv (inner_product a b) (map2 fmul (embedding_norm a) (embedding_norm b))))"
    by (simp add: dist_metric_def Let_def)
qed

text \<open>
  C1, at the input where the code departs from it. For a point equal to its base point the
  angle is \<open>0\<close> and lies in the near-zero mask. The closed-form column is not zero there:
  \<open>mask_else_float * angle / sin angle\<close> is \<open>0/0\<close>, which is \<open>NaN\<close>. Added to the
  series it makes both coefficients \<open>NaN\<close>, and the logarithm is \<open>NaN\<close> in every
  coordinate instead of the zero vector.
\<close>

theorem log_of_base_point_is_nan:
  "log_angle [[Fin 1, Fin 0, Fin 0]] [[Fin 1, Fin 0, Fin 0]] = [Fin 0] \<and>
   mask_0 [Fin 0] = [True] \<and> mask_else [Fin 0] = [False] \<and>
   coef_taylor INV_SIN_TAYLOR_COEFFS [Fin 0] = [Fin 1] \<and>
   coef_else_1 [Fin 0] = [NaN] \<and> coef_else_2 [Fin 0] = [NaN] \<and>
   log_coef_1 [Fin 0] = [NaN] \<and> log_coef_2 [Fin 0] = [NaN] \<and>
   log_metric (Arr2 [[Fin 1, Fin 0, Fin 0]]) (Arr2 [[Fin 1, Fin 0, Fin 0]])
     = [[NaN, NaN, NaN]]"
  by (simp add: log_defs concrete_defs)

section \<open>Coordinates\<close>

text \<open>
  C9. Converting a batch of intrinsic coordinates to extrinsic coordinates and back
  returns the batch itself, whatever its entries: the conversion back drops the
  coordinate that was put in front, also when that coordinate is \<open>NaN\<close> because the
  intrinsic norm exceeds 1.
\<close>

theorem coords_round_trip:
  "extrinsic_to_intrinsic_coords (Arr2 (intrinsic_to_extrinsic_coords (Arr2 p))) = p \<and>
   intrinsic_to_extrinsic_coords (Arr2 [[Fin 2, Fin 0]]) = [[NaN, Fin 2, Fin 0]]"
  unfolding extrinsic_to_intrinsic_coords_def intrinsic_to_extrinsic_coords_def
  by (simp add: Let_def zip_map1 zip_same_conv_map comp_def linalg_norm_def fsum_def fpow_Fin
      fsub_def)

section \<open>Membership, projection and sampling\<close>

lemma fsum_Fin_map: "fsum (map (\<lambda>x. Fin (f x)) xs) = Fin (\<Sum>x\<leftarrow>xs. f x)"
  by (induction xs) (simp_all add: fsum_def)

lemma finite_row_map: "map (\<lambda>x. Fin (f x)) v = finite_row (map f v)"
  by (simp add: finite_row_def)

lemma set_finite_row: "set (finite_row v) = Fin ` set v"
  by (simp add: finite_row_def)

lemma squared_norm_finite_batch:
  "embedding_squared_norm (finite_batch rows) = map (\<lambda>r. Fin (sq_sum r)) rows"
  by (simp add: embedding_squared_norm_def inner_product_def zip_same_conv_map comp_def)



lemma EPSILON_pos: "0 < EPSILON"
  by (simp add: EPSILON_def)

subsection \<open>belongs\<close>


lemma belongs_rows:
  assumes "rows \<noteq> []"
  shows "fst (belongs self (finite_batch rows) tol) =
     (if length (hd rows) = dimension self + 1
      then BoolArray (map (\<lambda>r. \<bar>sq_sum r - 1\<bar> \<le> tol) rows) else PyFalse)"
proof -
  obtain r rs where rows: "rows = r # rs" using assms(1) by (cases rows) auto
  have sl: "shape_last (finite_batch rows) = length (hd rows)"
    by (simp add: rows)
  show ?thesis
    by (simp add: belongs_def sl squared_norm_finite_batch Let_def fsub_def comp_def)
qed

subsection \<open>projection\<close>

lemma projection_rows:
  "projection (Arr2 m) = map (\<lambda>r. map (\<lambda>x. fdiv x (fsqrt (inner_row r r))) r) m"
  by (simp add: projection_def Let_def embedding_norm_def embedding_squared_norm_def
      inner_product_def zip_map2 zip_same_conv_map comp_def)

lemma projection_single: "projection (Arr1 v) = projection (Arr2 [v])"
  by (simp add: projection_def)

lemma fdiv_finite_row:
  assumes "c \<noteq> 0"
  shows "map (\<lambda>x. fdiv x (Fin c)) (finite_row r) = finite_row (map (\<lambda>x. x / c) r)"
  using assms by (induction r) simp_all

lemma projection_finite_row:
  assumes "sq_sum r \<noteq> 0"
  shows "map (\<lambda>x. fdiv x (fsqrt (inner_row (finite_row r) (finite_row r)))) (finite_row r)
           = finite_row (map (\<lambda>x. x / sqrt (sq_sum r)) r)"
  using assms by (simp add: fdiv_finite_row)

lemma projection_finite_batch:
  assumes "\<forall>r\<in>set rows. sq_sum r \<noteq> 0"
  shows "projection (finite_batch rows)
           = map (\<lambda>r. finite_row (map (\<lambda>x. x / sqrt (sq_sum r)) r)) rows"
  using assms by (simp add: finite_batch_def projection_rows fdiv_finite_row comp_def)





subsection \<open>random_uniform\<close>















subsection \<open>regularize\<close>

lemma regularize_fst:
  "fst (regularize self point) =
     (if gs_all (fst (belongs self point TOLERANCE)) then Inr (projection point)
      else Inl AssertionError)"
  by (simp add: regularize_def split: prod.splits)

lemma on_sphere_nonzero:
  assumes "on_sphere n TOLERANCE r"
  shows "sq_sum r \<noteq> 0"
proof
  assume "sq_sum r = 0"
  with assms have "(1::real) \<le> TOLERANCE" by (simp add: on_sphere_def)
  then show False by (simp add: TOLERANCE_def)
qed

lemma gs_all_BoolArray_map:
  "gs_all (BoolArray (map P xs)) = (\<forall>x\<in>set xs. P x)"
  by (induction xs) simp_all

lemma gs_all_belongs_rows:
  assumes "rows \<noteq> []" "\<forall>r\<in>set rows. length r = length (hd rows)"
  shows "gs_all (fst (belongs self (finite_batch rows) tol))
           = (\<forall>r\<in>set rows. on_sphere (dimension self) tol r)"
proof (cases "length (hd rows) = dimension self + 1")
  case True
  then have "\<forall>r\<in>set rows. length r = dimension self + 1" using assms(2) by simp
  then have "(\<forall>r\<in>set rows. on_sphere (dimension self) tol r)
               = (\<forall>r\<in>set rows. \<bar>sq_sum r - 1\<bar> \<le> tol)"
    unfolding on_sphere_def by blast
  moreover have "fst (belongs self (finite_batch rows) tol)
                  = BoolArray (map (\<lambda>r. \<bar>sq_sum r - 1\<bar> \<le> tol) rows)"
    using True belongs_rows [OF assms(1), of self tol] by simp
  ultimately show ?thesis
    by (simp only: gs_all_BoolArray_map)
next
  case False
  have "hd rows \<in> set rows" using assms(1) by simp
  then have "\<not> (\<forall>r\<in>set rows. on_sphere (dimension self) tol r)"
    using False unfolding on_sphere_def by blast
  moreover have "fst (belongs self (finite_batch rows) tol) = PyFalse"
    using False belongs_rows [OF assms(1), of self tol] by simp
  ultimately show ?thesis
    by simp
qed


lemma regularize_rows:
  assumes "rows \<noteq> []" "\<forall>r\<in>set rows. length r = length (hd rows)"
  shows "fst (regularize self (finite_batch rows)) =
        (if \<forall>r\<in>set rows. on_sphere (dimension self) TOLERANCE r
         then Inr (map (\<lambda>r. finite_row (map (\<lambda>x. x / sqrt (sq_sum r)) r)) rows)
         else Inl AssertionError)"
proof -
  have g: "gs_all (fst (belongs self (finite_batch rows) TOLERANCE))
           = (\<forall>r\<in>set rows. on_sphere (dimension self) TOLERANCE r)"
    using assms by (rule gs_all_belongs_rows)
  show ?thesis
  proof (cases "\<forall>r\<in>set rows. on_sphere (dimension self) TOLERANCE r")
    case True
    then have "\<forall>r\<in>set rows. sq_sum r \<noteq> 0" using on_sphere_nonzero by blast
    then have p: "projection (finite_batch rows)
           = map (\<lambda>r. finite_row (map (\<lambda>x. x / sqrt (sq_sum r)) r)) rows"
      by (rule projection_finite_batch)
    have "gs_all (fst (belongs self (finite_batch rows) TOLERANCE))" using g True by blast
    then have "fst (regularize self (finite_batch rows)) = Inr (projection (finite_batch rows))"
      by (simp only: regularize_fst if_True)
    then show ?thesis unfolding p if_P [OF True] .
  next
    case False
    then have "\<not> gs_all (fst (belongs self (finite_batch rows) TOLERANCE))"
      using g by blast
    then have "fst (regularize self (finite_batch rows)) = Inl AssertionError"
      by (simp only: regularize_fst if_False)
    then show ?thesis unfolding if_not_P [OF False] .
  qed
qed

text \<open>
  C7. \<open>regularize\<close> raises the assertion error exactly when not every row of the point
  passes \<open>belongs\<close> (with the default tolerance), and otherwise returns the projection
  of the point. On a batch of finite rows this reads: it raises unless every row has
  \<open>n + 1\<close> coordinates and a squared norm within the tolerance of 1, and then it
  returns every row divided by its norm.
\<close>

theorem regularize_asserts_then_projects:
  "fst (regularize self point) =
     (if gs_all (fst (belongs self point TOLERANCE)) then Inr (projection point)
      else Inl AssertionError) \<and>
   (rows \<noteq> [] \<and> (\<forall>r\<in>set rows. length r = length (hd rows)) \<longrightarrow>
      fst (regularize self (finite_batch rows)) =
        (if \<forall>r\<in>set rows. on_sphere (dimension self) TOLERANCE r
         then Inr (map (\<lambda>r. finite_row (map (\<lambda>x. x / sqrt (sq_sum r)) r)) rows)
         else Inl AssertionError))"
  using regularize_fst [of self point] regularize_rows [of rows self] by blast

text \<open>Two points of the circle are returned as they are; \<open>(0, 2)\<close> is rejected.\<close>

theorem regularize_asserts_then_projects_witness:
  "[[0, 1], [1, 0 :: real]] \<noteq> [] \<and> length [1, 0 :: real] = length (hd [[0, 1], [1, 0 :: real]]) \<and>
   fst (regularize \<lparr>dimension = 1\<rparr> (finite_batch [[0, 1], [1, 0]]))
     = Inr [[Fin 0, Fin 1], [Fin 1, Fin 0]] \<and>
   fst (regularize \<lparr>dimension = 1\<rparr> (finite_batch [[0, 2]])) = Inl AssertionError"
  using regularize_asserts_then_projects [of "\<lparr>dimension = 1\<rparr>" "Arr1 []" "[[0, 1], [1, 0]]"]
    regularize_asserts_then_projects [of "\<lparr>dimension = 1\<rparr>" "Arr1 []" "[[0, 2]]"]
  by (simp add: on_sphere_def TOLERANCE_def)

subsection \<open>belongs: the identity test\<close>

text \<open>
  C5, at the input where the code departs from it. On the sphere of dimension 300 a point
  with 300 coordinates is rejected, as the claim says, but no warning is logged: the
  warning hangs on the identity test \<open>is\<close>, which fails for two equal integers above
  256. On the sphere of dimension 2 the same mistake is reported.
\<close>

theorem belongs_identity_test:
  "belongs \<lparr>dimension = 300\<rparr> (Arr1 (replicate 300 (Fin 0))) TOLERANCE = (PyFalse, []) \<and>
   belongs \<lparr>dimension = 2\<rparr> (Arr1 [Fin 0, Fin 0]) TOLERANCE = (PyFalse, [intrinsic_warning])"
  by (simp add: belongs_def py_is_def)

subsection \<open>exp\<close>

lemma exp_row:
  "map2 fadd (map (fmul (Fin c1)) (finite_row p)) (map (fmul (Fin c2)) (finite_row v))
     = map2 (\<lambda>pj vj. Fin (c1 * pj + c2 * vj)) p v"
proof (induction p arbitrary: v)
  case Nil
  show ?case by simp
next
  case (Cons x p)
  show ?case
  proof (cases v)
    case Nil
    then show ?thesis by simp
  next
    case (Cons y v')
    with Cons.IH [of v'] show ?thesis by simp
  qed
qed

lemma norm_eps_pos: "0 < sqrt (sq_sum v) + EPSILON"
  using sq_sum_nonneg [of v] EPSILON_pos by (simp add: add_nonneg_pos)

lemma exp_metric_Nil:
  "exp_metric (finite_batch []) (finite_batch P) = []"
  "exp_metric (finite_batch V) (finite_batch []) = []"
  by (simp_all add: exp_metric_def embedding_norm_def embedding_squared_norm_def
      inner_product_def Let_def einsum_scale_def batch_add_def)

lemma exp_metric_Cons:
  "exp_metric (finite_batch (v # V)) (finite_batch (p # P))
     = exp_formula EPSILON EPSILON v p # exp_metric (finite_batch V) (finite_batch P)"
  using norm_eps_pos [of v]
  by (simp add: exp_metric_def embedding_norm_def embedding_squared_norm_def
      inner_product_def Let_def einsum_scale_def batch_add_def exp_row exp_formula_def)

lemma exp_metric_rows:
  "exp_metric (finite_batch V) (finite_batch P) = map2 (exp_formula EPSILON EPSILON) V P"
proof (induction V arbitrary: P)
  case Nil
  show ?case by (simp add: exp_metric_Nil)
next
  case (Cons v V)
  show ?case
  proof (cases P)
    case Nil
    then show ?thesis by (simp add: exp_metric_Nil)
  next
    case (Cons p P')
    then show ?thesis using Cons.IH [of P'] by (simp add: exp_metric_Cons)
  qed
qed

lemma exp_metric_single:
  "exp_metric (Arr1 (finite_row v)) (Arr1 (finite_row p)) = [exp_formula EPSILON EPSILON v p]"
proof -
  have "exp_metric (Arr1 (finite_row v)) (Arr1 (finite_row p))
          = exp_metric (finite_batch [v]) (finite_batch [p])"
    by (simp add: exp_metric_def)
  then show ?thesis by (simp add: exp_metric_rows)
qed

text \<open>
  C3, as the code has it. On finite tangent vectors and base points (as many of the one as
  of the other, each pair of one length) \<open>exp\<close> returns
  \<open>cos (|v| + EPSILON) * p + (sin (|v| + EPSILON) / (|v| + EPSILON)) * v\<close>: the epsilon
  is added to the norm once, and the sum enters the cosine and the sine as well as the
  division.
\<close>

theorem exp_adds_epsilon_to_the_norm:
  assumes "list_all2 (\<lambda>v p. length v = length p) V P"
  shows "exp_metric (finite_batch V) (finite_batch P) = map2 (exp_formula EPSILON EPSILON) V P"
  by (rule exp_metric_rows)

text \<open>The tangent vector \<open>(0, 1, 0)\<close> at the base point \<open>(1, 0, 0)\<close>.\<close>

theorem exp_adds_epsilon_to_the_norm_witness:
  "length [0, 1, 0 :: real] = length [1, 0, 0 :: real] \<and>
   exp_metric (finite_batch [[0, 1, 0]]) (finite_batch [[1, 0, 0]])
     = [[Fin (cos (1 + EPSILON)), Fin (sin (1 + EPSILON) / (1 + EPSILON)), Fin 0]]"
  using exp_adds_epsilon_to_the_norm [of "[[0, 1, 0]]" "[[1, 0, 0]]"]
  by (simp add: exp_formula_def)

lemma cos_shift: "cos (1 + EPSILON) < cos 1"
proof -
  have "1 + EPSILON \<le> pi" using pi_ge_two by (simp add: EPSILON_def)
  then show ?thesis using cos_monotone_0_pi [of 1 "1 + EPSILON"] EPSILON_pos by simp
qed

text \<open>
  C3 fails as stated: for the tangent vector \<open>(0, 1, 0)\<close> at \<open>(1, 0, 0)\<close> the first
  coordinate of the result is \<open>cos (1 + EPSILON)\<close>, not \<open>cos 1\<close>. So the result is
  neither the formula with the epsilon in the division only nor the formula without it,
  and a vector of length 1 is biased too.
\<close>

theorem exp_epsilon_counterexample:
  "exp_metric (Arr1 [Fin 0, Fin 1, Fin 0]) (Arr1 [Fin 1, Fin 0, Fin 0])
     \<noteq> [exp_formula 0 EPSILON [0, 1, 0] [1, 0, 0]] \<and>
   exp_metric (Arr1 [Fin 0, Fin 1, Fin 0]) (Arr1 [Fin 1, Fin 0, Fin 0])
     \<noteq> [exp_formula 0 0 [0, 1, 0] [1, 0, 0]]"
  using cos_shift exp_metric_single [of "[0, 1, 0]" "[1, 0, 0]"]
  by (simp add: exp_formula_def)

subsection \<open>random_von_mises_fisher\<close>












section \<open>The logarithm away from the base point\<close>

text \<open>
  The two masks are complementary on every column. For a finite angle strictly between
  \<open>0\<close> and \<open>pi\<close> the coefficients are the series when the angle is at most \<open>1e-8\<close>
  and the closed forms \<open>angle / sin angle\<close> and \<open>angle / tan angle\<close> otherwise; only
  the angle \<open>0\<close> itself goes wrong.
\<close>

lemma masks_complementary: "mask_else angle = map Not (mask_0 angle)"
  by (simp add: mask_else_def)

lemma log_coef_1_positive_angle:
  assumes "0 < a" "a < pi"
  shows "log_coef_1 [Fin a] =
           [Fin (if a \<le> 1 / 10 ^ 8
                 then 1 + a\<^sup>2 / 6 + 7 * a ^ 4 / 360 + 31 * a ^ 6 / 15120 + 127 * a ^ 8 / 604800
                 else a / sin a)]"
  using assms sin_gt_zero [OF assms]
  by (simp add: log_defs concrete_defs)

lemma log_coef_2_positive_angle:
  assumes "0 < a" "a < pi"
  shows "log_coef_2 [Fin a] =
           [Fin (if a \<le> 1 / 10 ^ 8
                 then 1 - a\<^sup>2 / 3 - a ^ 4 / 45 - 2 * a ^ 6 / 945 - a ^ 8 / 4725
                 else a / tan a)]"
  using assms sin_gt_zero [OF assms]
  by (simp add: log_defs concrete_defs tan_def)

end
